theory Spec2Isabelle
  imports
    Complex_Main
    "HOL-Library.Char_ord"
    "HOL-Library.List_Lexorder"
    "HOL-Library.Product_Lexorder"
    "HOL-Library.Sublist"
    "HOL-Library.AList"
begin

section \<open>Conventions of the embedding\<close>

text \<open>
  The Python sources under \<^verbatim>\<open>src/tools\<close> are embedded function by function.
  \<^item> A Python \<^verbatim>\<open>float\<close> is a \<^typ>\<open>real\<close>: every arithmetic operation is the exact
    one, so rounding, overflow, infinities and NaN are outside the model.
  \<^item> A Python \<^verbatim>\<open>int\<close> is an \<^typ>\<open>int\<close>, a \<^verbatim>\<open>str\<close> is a \<^typ>\<open>string\<close>.
  \<^item> A \<^verbatim>\<open>Dict[str, int]\<close> is an association list in insertion order; a Python
    dictionary is such a list with distinct keys.
  \<^item> A raised exception is a value of type \<open>error\<close>. \<open>OutsideModel\<close> is not a Python
    exception: it marks the one place where the source goes on with a float NaN, which a
    real number cannot stand for.
\<close>

datatype error =
  KeyError | ZeroDivisionError | TypeError | ValueError | AttributeError | OutsideModel

text \<open>Python's \<^verbatim>\<open>str(n)\<close> for an integer: decimal digits, a minus sign first when
  negative.\<close>

definition digit_char :: "nat \<Rightarrow> char" where
  "digit_char d = char_of (48 + d)"

fun str_nat :: "nat \<Rightarrow> string" where
  "str_nat n = (if n < 10 then [digit_char n] else str_nat (n div 10) @ [digit_char (n mod 10)])"

declare str_nat.simps [simp del]

definition str_int :: "int \<Rightarrow> string" where
  "str_int i = (if i < 0 then CHR ''-'' # str_nat (nat (- i)) else str_nat (nat i))"

section \<open>classification.py\<close>

record Classification =
  label :: string
  confidence :: real
  bonus :: real
  reason :: string

text \<open>The element sets held by \<^verbatim>\<open>MolecularClassifier\<close>. The sets the source defines
  but never reads (transition metals, organic elements, base elements, explosive
  indicators) are left out.\<close>

definition metals :: "string set" where
  "metals = set [
     ''Li'', ''Be'', ''Na'', ''Mg'', ''Al'', ''K'', ''Ca'', ''Sc'', ''Ti'', ''V'', ''Cr'',
     ''Mn'', ''Fe'', ''Co'', ''Ni'', ''Cu'', ''Zn'', ''Ga'', ''Rb'', ''Sr'', ''Y'', ''Zr'',
     ''Nb'', ''Mo'', ''Tc'', ''Ru'', ''Rh'', ''Pd'', ''Ag'', ''Cd'', ''In'', ''Sn'', ''Sb'',
     ''Cs'', ''Ba'', ''La'', ''Hf'', ''Ta'', ''W'', ''Re'', ''Os'', ''Ir'', ''Pt'', ''Au'',
     ''Hg'', ''Tl'', ''Pb'', ''Bi'', ''Fr'', ''Ra'', ''Ac'']"

definition semiconductor_elements :: "string set" where
  "semiconductor_elements = set [''Si'', ''Ge'', ''Ga'', ''As'', ''In'', ''Sb'', ''Te'']"

definition superalloy_metals :: "string set" where
  "superalloy_metals =
     set [''Ni'', ''Co'', ''Cr'', ''W'', ''Mo'', ''Re'', ''Ta'', ''Nb'', ''Ti'', ''Al'']"

definition acid_elements :: "string set" where
  "acid_elements = set [''S'', ''P'', ''N'', ''Cl'', ''Br'', ''I'']"

text \<open>\<^verbatim>\<open>', '.join(sorted(s))\<close> for a set of strings.\<close>

fun join_comma :: "string list \<Rightarrow> string" where
  "join_comma [] = []"
| "join_comma [x] = x"
| "join_comma (x # y # ys) = x @ '', '' @ join_comma (y # ys)"

definition join_sorted :: "string set \<Rightarrow> string" where
  "join_sorted s = join_comma (sorted_list_of_set s)"

text \<open>\<^verbatim>\<open>counts.get(key, 0)\<close>.\<close>

definition get0 :: "(string \<times> int) list \<Rightarrow> string \<Rightarrow> int" where
  "get0 counts key = (case map_of counts key of None \<Rightarrow> 0 | Some c \<Rightarrow> c)"

definition detect_organometallic ::
  "string set \<Rightarrow> (string \<times> int) list \<Rightarrow> Classification option" where
  "detect_organometallic elements counts =
     (let has_carbon = ''C'' \<in> elements;
          has_metal = (elements \<inter> metals \<noteq> {})
      in if has_carbon \<and> has_metal then
           Some \<lparr>label = ''organometallic'', confidence = 1.0, bonus = 1.0,
                 reason = ''Contains C + metals ('' @ join_sorted (elements \<inter> metals) @ '')''\<rparr>
         else None)"

definition detect_perfluorinated :: "(string \<times> int) list \<Rightarrow> Classification option" where
  "detect_perfluorinated counts =
     (let F_count = get0 counts ''F''
      in if F_count \<ge> 6 then
           Some \<lparr>label = ''perfluorinated'', confidence = 1.0, bonus = 0.8,
                 reason = ''Contains '' @ str_int F_count @ '' fluorine atoms''\<rparr>
         else None)"

definition detect_semiconductor ::
  "string set \<Rightarrow> (string \<times> int) list \<Rightarrow> Classification option" where
  "detect_semiconductor elements counts =
     (let semi_present = elements \<inter> semiconductor_elements
      in if semi_present \<noteq> {} then
           (if (''Ga'' \<in> elements \<and> ''As'' \<in> elements) \<or>
               (''In'' \<in> elements \<and> ''P'' \<in> elements) \<or>
               (''Cd'' \<in> elements \<and> ''Te'' \<in> elements) then
              Some \<lparr>label = ''semiconductor'', confidence = 1.0, bonus = 0.7,
                    reason = ''Compound semiconductor ('' @ join_sorted semi_present @ '')''\<rparr>
            else if ''Si'' \<in> elements \<or> ''Ge'' \<in> elements then
              Some \<lparr>label = ''semiconductor'', confidence = 0.9, bonus = 0.7,
                    reason = ''Elemental semiconductor ('' @ join_sorted semi_present @ '')''\<rparr>
            else None)
         else None)"

definition detect_superalloy ::
  "string set \<Rightarrow> (string \<times> int) list \<Rightarrow> Classification option" where
  "detect_superalloy elements counts =
     (let metals_present = elements \<inter> metals;
          superalloy_present = elements \<inter> superalloy_metals
      in if card metals_present \<ge> 3 \<and> card superalloy_present \<ge> 2 then
           Some \<lparr>label = ''metallic_superalloy'', confidence = 0.8, bonus = 0.6,
                 reason = ''Multi-metal alloy ('' @ join_sorted superalloy_present @ '')''\<rparr>
         else None)"

definition detect_super_acid ::
  "string set \<Rightarrow> (string \<times> int) list \<Rightarrow> Classification option" where
  "detect_super_acid elements counts =
     (let has_carbon = ''C'' \<in> elements;
          has_hydrogen = ''H'' \<in> elements;
          acid_present = elements \<inter> acid_elements
      in if has_carbon \<and> has_hydrogen \<and> acid_present \<noteq> {} then
           (if ''F'' \<in> elements \<or> ''S'' \<in> elements then
              Some \<lparr>label = ''organic_super_acid'', confidence = 0.7, bonus = 0.5,
                    reason = ''Organic + acid elements ('' @ join_sorted acid_present @ '')''\<rparr>
            else None)
         else None)"

definition detect_super_base ::
  "string set \<Rightarrow> (string \<times> int) list \<Rightarrow> Classification option" where
  "detect_super_base elements counts =
     (let has_carbon = ''C'' \<in> elements;
          has_nitrogen = ''N'' \<in> elements;
          has_metal = (elements \<inter> metals \<noteq> {});
          N_count = get0 counts ''N''
      in if has_carbon \<and> has_nitrogen then
           (if N_count \<ge> 2 \<or> has_metal then
              Some \<lparr>label = ''organic_super_base'', confidence = 0.7, bonus = 0.5,
                    reason = ''Organic + N (count='' @ str_int N_count @ '')'' @
                             (if has_metal then '', metal'' else [])\<rparr>
            else None)
         else None)"

definition detect_explosive ::
  "string set \<Rightarrow> (string \<times> int) list \<Rightarrow> Classification option" where
  "detect_explosive elements counts =
     (let N_count = get0 counts ''N'';
          O_count = get0 counts ''O'';
          N_O_ratio = real_of_int N_count / real_of_int (max 1 O_count)
      in if N_count \<ge> 3 \<and> O_count \<ge> 3 \<and> 0.3 \<le> N_O_ratio \<and> N_O_ratio \<le> 1.5 then
           Some \<lparr>label = ''explosive'', confidence = 0.6, bonus = 0.3,
                 reason = ''High N+O content (N='' @ str_int N_count @ '', O='' @
                          str_int O_count @ '')''\<rparr>
         else if ''Cl'' \<in> elements \<and> O_count \<ge> 4 then
           Some \<lparr>label = ''explosive'', confidence = 0.5, bonus = 0.3,
                 reason = ''Perchlorate pattern (Cl + O='' @ str_int O_count @ '')''\<rparr>
         else None)"

text \<open>\<^verbatim>\<open>if x: classifications.append(x)\<close>: a \<^verbatim>\<open>Classification\<close> object is always
  truthy, so exactly the results other than \<^verbatim>\<open>None\<close> are appended.\<close>

definition append_if :: "Classification list \<Rightarrow> Classification option \<Rightarrow> Classification list" where
  "append_if classifications x =
     (case x of None \<Rightarrow> classifications | Some c \<Rightarrow> classifications @ [c])"

text \<open>\<^verbatim>\<open>MolecularClassifier.classify\<close>. The final
  \<^verbatim>\<open>sort(key=lambda c: c.bonus, reverse=True)\<close> is stable: entries of equal bonus
  keep their order.\<close>

definition classify :: "(string \<times> int) list \<Rightarrow> Classification list" where
  "classify element_counts =
     (let elements = set (map fst element_counts);
          cs0 = append_if [] (detect_organometallic elements element_counts);
          cs1 = append_if cs0 (detect_perfluorinated element_counts);
          cs2 = append_if cs1 (detect_semiconductor elements element_counts);
          cs3 = append_if cs2 (detect_superalloy elements element_counts);
          cs4 = append_if cs3 (detect_super_acid elements element_counts);
          cs5 = append_if cs4 (detect_super_base elements element_counts);
          cs6 = append_if cs5 (detect_explosive elements element_counts)
      in sort_key (\<lambda>c. - bonus c) cs6)"

definition classify_molecule :: "(string \<times> int) list \<Rightarrow> Classification list" where
  "classify_molecule element_counts = classify element_counts"

section \<open>scoring.py\<close>

record ScoreBreakdown =
  wN :: real
  wQ :: real
  wM :: real
  wD :: real
  wS :: real
  wC :: real
  cost :: real
  value' :: real
  priority :: real
  classifications :: "string list"

text \<open>The configuration held by a \<^verbatim>\<open>MolecularScorer\<close>; the amplitudes
  \<^verbatim>\<open>a\<close> and \<^verbatim>\<open>b\<close> are the fields \<open>amp_a\<close> and \<open>amp_b\<close>. The set of atomic numbers
  \<^verbatim>\<open>self.metals\<close> is never read by the source and is left out.\<close>

record MolecularScorer =
  mu1 :: real
  mu2 :: real
  sigma1 :: real
  sigma2 :: real
  amp_a :: real
  amp_b :: real
  k_charge :: real
  alpha_metal :: real
  beta_diversity :: real
  lambda_cost :: real
  use_classification :: bool

text \<open>\<^verbatim>\<open>default_scorer = MolecularScorer()\<close>, the defaults of the constructor.\<close>

definition default_scorer :: MolecularScorer where
  "default_scorer =
     \<lparr>mu1 = 8.0, mu2 = 56.0, sigma1 = 3.0, sigma2 = 12.0, amp_a = 1.0, amp_b = 0.8,
      k_charge = 2.0, alpha_metal = 0.3, beta_diversity = 0.5, lambda_cost = 0.01,
      use_classification = True\<rparr>"

text \<open>\<^verbatim>\<open>compute_wN\<close>. A float division by zero raises \<^verbatim>\<open>ZeroDivisionError\<close>, which
  happens exactly when one of the widths is zero.\<close>

definition compute_wN :: "MolecularScorer \<Rightarrow> int \<Rightarrow> error + real" where
  "compute_wN self N =
     (if 2 * (sigma1 self)\<^sup>2 = 0 then Inl ZeroDivisionError
      else let term1 = amp_a self * exp (- ((real_of_int N - mu1 self)\<^sup>2) / (2 * (sigma1 self)\<^sup>2))
      in if 2 * (sigma2 self)\<^sup>2 = 0 then Inl ZeroDivisionError
      else let term2 = amp_b self * exp (- ((real_of_int N - mu2 self)\<^sup>2) / (2 * (sigma2 self)\<^sup>2))
      in Inr (term1 + term2))"

definition compute_wQ :: "MolecularScorer \<Rightarrow> real \<Rightarrow> real" where
  "compute_wQ self total_charge = exp (- k_charge self * \<bar>total_charge\<bar>)"

definition metal_symbols :: "string set" where
  "metal_symbols = set [
     ''Li'', ''Be'', ''Na'', ''Mg'', ''Al'', ''K'', ''Ca'', ''Sc'', ''Ti'',
     ''V'', ''Cr'', ''Mn'', ''Fe'', ''Co'', ''Ni'', ''Cu'', ''Zn'', ''Ga'',
     ''Rb'', ''Sr'', ''Y'', ''Zr'', ''Nb'', ''Mo'', ''Tc'', ''Ru'', ''Rh'',
     ''Pd'', ''Ag'', ''Cd'', ''In'', ''Cs'', ''Ba'', ''La'', ''Hf'', ''Ta'',
     ''W'', ''Re'', ''Os'', ''Ir'', ''Pt'', ''Au'', ''Hg'', ''Tl'', ''Fr'',
     ''Ra'', ''Ac'']"

text \<open>\<^verbatim>\<open>sum(element_counts.values())\<close>.\<close>

definition sum_values :: "(string \<times> int) list \<Rightarrow> int" where
  "sum_values element_counts = sum_list (map snd element_counts)"

definition compute_wM :: "MolecularScorer \<Rightarrow> (string \<times> int) list \<Rightarrow> real" where
  "compute_wM self element_counts =
     (let N_total = sum_values element_counts
      in if N_total = 0 then 1.0
         else let N_metal = sum_list (map snd (filter (\<lambda>(elem, count'). elem \<in> metal_symbols)
                                                  element_counts))
              in 1.0 + alpha_metal self * (real_of_int N_metal / real_of_int N_total))"

definition compute_wD :: "MolecularScorer \<Rightarrow> (string \<times> int) list \<Rightarrow> real" where
  "compute_wD self element_counts =
     (let N = sum_values element_counts;
          unique = length element_counts
      in if N \<le> 1 then 1.0
         else 1.0 + beta_diversity self * (real unique / ln (1 + real_of_int N)))"

definition compute_wC :: "MolecularScorer \<Rightarrow> (string \<times> int) list \<Rightarrow> real \<times> string list" where
  "compute_wC self element_counts =
     (if \<not> use_classification self then (1.0, [])
      else let cs = classify_molecule element_counts
           in if cs = [] then (1.0, [])
              else let total_bonus = sum_list (map bonus cs);
                       labels = map label cs
                   in (1.0 + total_bonus, labels))"

definition compute_wS :: "MolecularScorer \<Rightarrow> string \<Rightarrow> bool \<Rightarrow> bool \<Rightarrow> real" where
  "compute_wS self health converged' bounded =
     (if health = ''converged'' \<or> (bounded \<and> converged') then 1.0
      else if health = ''bounded'' \<or> bounded then 0.3
      else 0.05)"

text \<open>\<^verbatim>\<open>compute_cost\<close>. For a negative \<^verbatim>\<open>N\<close> Python evaluates \<^verbatim>\<open>N ** 1.5\<close> to a
  \<^verbatim>\<open>complex\<close> number; the model records only that the result is complex, not its
  value.\<close>

datatype pynum = PyFloat real | PyComplex

definition compute_cost :: "MolecularScorer \<Rightarrow> int \<Rightarrow> bool \<Rightarrow> pynum" where
  "compute_cost self N has_long_range =
     (if has_long_range then PyFloat (real_of_int (N * N) / (2000 powr 1.5))
      else if N < 0 then PyComplex
      else PyFloat ((real_of_int N powr 1.5) / (2000 powr 1.5)))"

text \<open>\<^verbatim>\<open>MolecularScorer.score\<close>. The weights are computed in the order of the source,
  so the first exception raised is the one returned. With a complex cost the quotient
  \<^verbatim>\<open>V / (1.0 + lambda_cost * C)\<close> is complex (its divisor has real part 1), and
  \<^verbatim>\<open>min(100.0, S * 50.0)\<close> raises \<^verbatim>\<open>TypeError\<close> because complex numbers are not
  ordered.\<close>

definition score ::
  "MolecularScorer \<Rightarrow> int \<Rightarrow> (string \<times> int) list \<Rightarrow> real \<Rightarrow> string \<Rightarrow> bool \<Rightarrow> bool \<Rightarrow> bool
     \<Rightarrow> error + ScoreBreakdown" where
  "score self N element_counts total_charge health converged' bounded has_long_range =
     (case compute_wN self N of
        Inl e \<Rightarrow> Inl e
      | Inr wN' \<Rightarrow>
          let wQ' = compute_wQ self total_charge;
              wM' = compute_wM self element_counts;
              wD' = compute_wD self element_counts;
              (wC', class_labels) = compute_wC self element_counts;
              wS' = compute_wS self health converged' bounded;
              V = wN' * wQ' * wM' * wD' * wC' * wS'
          in (case compute_cost self N has_long_range of
                PyComplex \<Rightarrow> Inl TypeError
              | PyFloat C \<Rightarrow>
                  if 1.0 + lambda_cost self * C = 0 then Inl ZeroDivisionError
                  else let S = V / (1.0 + lambda_cost self * C);
                           S_normalized = min 100.0 (S * 50.0)
                       in Inr \<lparr>wN = wN', wQ = wQ', wM = wM', wD = wD', wS = wS', wC = wC',
                               cost = C, value' = V, priority = S_normalized,
                               classifications = class_labels\<rparr>))"

text \<open>A valid composition, as the data model of the specification has it: every element
  is mapped to a count of at least 1.\<close>

definition valid_composition :: "(string \<times> int) list \<Rightarrow> bool" where
  "valid_composition element_counts = (\<forall>(elem, count') \<in> set element_counts. 1 \<le> count')"

section \<open>discovery\_pipeline.py\<close>

text \<open>The dataclass \<^verbatim>\<open>DiscoveryRecord\<close>; its fields \<^verbatim>\<open>confidence\<close> and \<^verbatim>\<open>notes\<close> are
  \<open>confidence'\<close> and \<open>notes'\<close> here.\<close>

record DiscoveryRecord =
  formula :: string
  generation_method :: string
  energy :: real
  max_force :: real
  converged :: bool
  stable :: bool
  database_validated :: bool
  is_novel :: bool
  confidence' :: real
  notes' :: string
  xyz_file :: string
  timestamp :: string

text \<open>\<^verbatim>\<open>DiscoveryPipeline._determine_health(record, sim_data)\<close>; the second argument
  is not read by the source.\<close>

definition determine_health :: "DiscoveryRecord \<Rightarrow> 'd \<Rightarrow> string" where
  "determine_health record' sim_data =
     (if converged record' \<and> stable record' \<and> max_force record' < 0.01 then ''converged''
      else if energy record' < 0 \<and> max_force record' < 0.1 then ''bounded''
      else if \<bar>energy record'\<bar> > 1000000 \<or> max_force record' > 10.0 then ''exploded''
      else ''invalid'')"

text \<open>\<^verbatim>\<open>DiscoveryPipeline._infer_domain(formula, num_atoms)\<close>.\<close>

definition infer_domain :: "string \<Rightarrow> int \<Rightarrow> string" where
  "infer_domain formula' num_atoms =
     (if num_atoms = 1 then ''@molecule''
      else if num_atoms \<le> 10 then
        (if prefix ''Ar'' formula' \<or> prefix ''He'' formula' then ''@cluster''
         else ''@molecule'')
      else if num_atoms \<le> 100 then ''@gas''
      else ''@bulk'')"

text \<open>The formula built by \<^verbatim>\<open>parse_xyz_file\<close> from the element counts it has
  collected: the symbols in sorted order, each followed by its count unless the count is 1.
  Only keys of the dictionary are visited, so the lookup always succeeds.\<close>

definition formula_part :: "(string \<times> int) list \<Rightarrow> string \<Rightarrow> string" where
  "formula_part element_counts element =
     (case map_of element_counts element of
        None \<Rightarrow> []
      | Some count' \<Rightarrow> if count' = 1 then element else element @ str_int count')"

definition build_formula :: "(string \<times> int) list \<Rightarrow> string" where
  "build_formula element_counts =
     concat (map (formula_part element_counts) (sort (remdups (map fst element_counts))))"

text \<open>\<^verbatim>\<open>score_molecule\<close>, the convenience function of \<^verbatim>\<open>scoring.py\<close> that the
  pipeline imports: the first component of the pair it returns, the priority of the
  default scorer. The second component, a dictionary of the weights rounded to three
  decimals, is not modelled.\<close>

definition score_molecule_priority ::
  "int \<Rightarrow> (string \<times> int) list \<Rightarrow> real \<Rightarrow> string \<Rightarrow> bool \<Rightarrow> bool \<Rightarrow> bool \<Rightarrow> error + real" where
  "score_molecule_priority N element_counts total_charge health converged' bounded
       has_long_range =
     (case score default_scorer N element_counts total_charge health converged' bounded
             has_long_range of
        Inl e \<Rightarrow> Inl e
      | Inr breakdown \<Rightarrow> Inr (priority breakdown))"

text \<open>The attribute access \<^verbatim>\<open>record.model\<close>. The dataclass \<^verbatim>\<open>DiscoveryRecord\<close>
  declares no field \<^verbatim>\<open>model\<close>, and \<^verbatim>\<open>run_discovery_workflow\<close>, the only place where the
  source builds a \<^verbatim>\<open>DiscoveryRecord\<close>, passes the twelve declared fields and sets no
  other attribute, so the lookup raises \<^verbatim>\<open>AttributeError\<close>.\<close>

definition record_model :: "DiscoveryRecord \<Rightarrow> error + string" where
  "record_model record' = Inl AttributeError"

text \<open>\<^verbatim>\<open>DiscoveryPipeline._calculate_priority_score\<close>: the priority it returns (the
  breakdown dictionary is not modelled), or the exception it raises.\<close>

definition calculate_priority_score ::
  "DiscoveryRecord \<Rightarrow> 'd \<Rightarrow> (string \<times> int) list \<Rightarrow> error + real" where
  "calculate_priority_score record' sim_data element_counts =
     (let health = determine_health record' sim_data
      in case record_model record' of
           Inl e \<Rightarrow> Inl e
         | Inr model \<Rightarrow>
             let has_long_range = (model \<in> set [''LJ+Coulomb'', ''UFF'']);
                 total_charge = 0.0;
                 N = sum_values element_counts
             in score_molecule_priority N element_counts total_charge health
                  (converged record') (stable record') has_long_range)"

text \<open>\<^verbatim>\<open>DiscoveryPipeline._generate_run_card\<close>, as far as the size of the molecule goes:
  the \<^verbatim>\<open>domain\<close> and \<^verbatim>\<open>size\<close> fields of the card it returns, or the exception it raises.
  The steps before the score (the run id, the run directory, the copy of the structure
  file) act on the file system only and are taken to succeed. The score is computed
  first, so an exception of \<^verbatim>\<open>_calculate_priority_score\<close> ends the call before any
  domain is inferred. For the domain the source passes \<^verbatim>\<open>len(record.formula)\<close>, the
  number of characters of the formula string, as \<^verbatim>\<open>num_atoms\<close>, and it stores the same
  number as \<^verbatim>\<open>size\<close>.\<close>

definition generate_run_card ::
  "DiscoveryRecord \<Rightarrow> 'd \<Rightarrow> (string \<times> int) list \<Rightarrow> error + (string \<times> int)" where
  "generate_run_card record' sim_data element_counts =
     (case calculate_priority_score record' sim_data element_counts of
        Inl e \<Rightarrow> Inl e
      | Inr score' \<Rightarrow>
          let domain = infer_domain (formula record') (int (length (formula record')))
          in Inr (domain, int (length (formula record'))))"

section \<open>gap\_targeter.py\<close>

record Cell =
  scale :: int
  temp :: real
  density :: real
  n_runs :: int
  n_success :: int
  n_failures :: int
  mean_energy :: real
  std_energy :: real
  max_mismatch :: real

definition success_rate :: "Cell \<Rightarrow> real" where
  "success_rate cell =
     (if n_runs cell > 0 then real_of_int (n_success cell) / real_of_int (n_runs cell) else 0.0)"

definition is_sparse :: "Cell \<Rightarrow> int \<Rightarrow> bool" where
  "is_sparse cell threshold = (n_runs cell < threshold)"

definition is_high_mismatch :: "Cell \<Rightarrow> real \<Rightarrow> bool" where
  "is_high_mismatch cell threshold = (max_mismatch cell > threshold)"

text \<open>The dictionary \<^verbatim>\<open>self.cells\<close> maps a key \<^verbatim>\<open>(i, j, k)\<close> to a \<^verbatim>\<open>Cell\<close> object.
  It is the only mutable state of a \<^verbatim>\<open>GapTargeter\<close> that the functions below touch.
  The objects are reached through the dictionary only, so a reference to a cell is its
  key, and mutating a cell is \<^const>\<open>AList.update\<close> at its key: the entry keeps its place
  in the iteration order. The same function is the assignment \<^verbatim>\<open>cells[key] = v\<close>, which
  appends when the key is new.\<close>

type_synonym key = "int \<times> int \<times> int"
type_synonym grid = "(key \<times> Cell) list"

text \<open>\<^verbatim>\<open>np.linspace(start, stop, num)\<close>, in exact arithmetic.\<close>

definition linspace :: "real \<Rightarrow> real \<Rightarrow> nat \<Rightarrow> real list" where
  "linspace start stop num =
     map (\<lambda>i. start + real i * ((stop - start) / real (num - 1))) [0..<num]"

definition scale_bins :: "int list" where
  "scale_bins = [2, 5, 10, 20, 50, 100]"

definition temp_bins :: "real list" where
  "temp_bins = linspace 50 500 10"

definition density_bins :: "real list" where
  "density_bins = linspace 0.001 0.1 10"

definition new_cell :: "int \<Rightarrow> real \<Rightarrow> real \<Rightarrow> Cell" where
  "new_cell scale' temp' density' =
     \<lparr>scale = scale', temp = temp', density = density', n_runs = 0, n_success = 0,
      n_failures = 0, mean_energy = 0.0, std_energy = 0.0, max_mismatch = 0.0\<rparr>"

text \<open>\<^verbatim>\<open>GapTargeter._initialize_grid\<close>, run by the constructor on the empty
  dictionary.\<close>

definition initialize_grid :: grid where
  "initialize_grid =
     fold (\<lambda>(i, scale').
       fold (\<lambda>(j, temp').
         fold (\<lambda>(k, density').
                AList.update (int i, int j, int k) (new_cell scale' temp' density'))
              (enumerate 0 density_bins))
            (enumerate 0 temp_bins))
          (enumerate 0 scale_bins) []"

text \<open>\<^verbatim>\<open>np.argmin\<close> of a list: the index of the first minimal entry; an empty list
  raises \<^verbatim>\<open>ValueError\<close>. The helper scans the rest of the list with the best index and
  value found so far and the index of the next entry.\<close>

fun argmin_from :: "nat \<Rightarrow> real \<Rightarrow> nat \<Rightarrow> real list \<Rightarrow> nat" where
  "argmin_from best_i best_v i [] = best_i"
| "argmin_from best_i best_v i (x # xs) =
     (if x < best_v then argmin_from i x (Suc i) xs else argmin_from best_i best_v (Suc i) xs)"

definition argmin :: "real list \<Rightarrow> error + nat" where
  "argmin xs = (case xs of [] \<Rightarrow> Inl ValueError | x # rest \<Rightarrow> Inr (argmin_from 0 x 1 rest))"

text \<open>\<^verbatim>\<open>GapTargeter._get_cell_key\<close>.\<close>

definition get_cell_key :: "int \<Rightarrow> real \<Rightarrow> real \<Rightarrow> error + key" where
  "get_cell_key scale' temp' density' =
     (case argmin (map (\<lambda>s. \<bar>real_of_int (s - scale')\<bar>) scale_bins) of
        Inl e \<Rightarrow> Inl e
      | Inr i \<Rightarrow>
     (case argmin (map (\<lambda>t. \<bar>t - temp'\<bar>) temp_bins) of
        Inl e \<Rightarrow> Inl e
      | Inr j \<Rightarrow>
     (case argmin (map (\<lambda>d. \<bar>d - density'\<bar>) density_bins) of
        Inl e \<Rightarrow> Inl e
      | Inr k \<Rightarrow> Inr (int i, int j, int k))))"

text \<open>The body of \<^verbatim>\<open>record_run\<close> after the cell has been looked up: the updates of
  the cell, in the order of the source. The result is the cell as the call leaves it and
  the exception raised, if any: a cell mutated before an exception stays mutated. Where
  the source would store the NaN that \<^verbatim>\<open>np.sqrt\<close> returns for a negative argument, the
  model stops with \<open>OutsideModel\<close>.\<close>

definition record_cell :: "Cell \<Rightarrow> bool \<Rightarrow> real \<Rightarrow> Cell \<times> error option" where
  "record_cell cell success energy' =
     (let c1 = cell\<lparr>n_runs := n_runs cell + 1\<rparr>;
          c2 = (if success then c1\<lparr>n_success := n_success c1 + 1\<rparr>
                else c1\<lparr>n_failures := n_failures c1 + 1\<rparr>)
      in if success then
           (let n = n_success c2;
                old_mean = mean_energy c2
            in if n = 0 then (c2, Some ZeroDivisionError)
               else
                 let c3 = c2\<lparr>mean_energy := old_mean + (energy' - old_mean) / real_of_int n\<rparr>;
                     radicand = ((std_energy c3)\<^sup>2 * real_of_int (n - 1)
                                 + (energy' - old_mean) * (energy' - mean_energy c3))
                                / real_of_int n
                 in if radicand < 0 then (c3, Some OutsideModel)
                    else (c3\<lparr>std_energy := sqrt radicand\<rparr>, None))
         else (c2, None))"

text \<open>\<^verbatim>\<open>GapTargeter.record_run\<close>: the dictionary after the call and the exception
  raised, if any.\<close>

definition record_run ::
  "grid \<Rightarrow> int \<Rightarrow> real \<Rightarrow> real \<Rightarrow> bool \<Rightarrow> real \<Rightarrow> grid \<times> error option" where
  "record_run cells scale' temp' density' success energy' =
     (case get_cell_key scale' temp' density' of
        Inl e \<Rightarrow> (cells, Some e)
      | Inr key \<Rightarrow>
          (case map_of cells key of
             None \<Rightarrow> (cells, Some KeyError)
           | Some cell \<Rightarrow>
               let (cell', err) = record_cell cell success energy'
               in (AList.update key cell' cells, err)))"

text \<open>A sequence of calls of \<^verbatim>\<open>record_run\<close> on the same targeter, each call given as
  \<open>(scale, temp, density, success, energy)\<close>; the sequence ends at the first
  exception.\<close>

type_synonym run = "int \<times> real \<times> real \<times> bool \<times> real"

fun record_runs :: "grid \<Rightarrow> run list \<Rightarrow> grid \<times> error option" where
  "record_runs cells [] = (cells, None)"
| "record_runs cells ((scale', temp', density', success, energy') # rs) =
     (case record_run cells scale' temp' density' success energy' of
        (cells', None) \<Rightarrow> record_runs cells' rs
      | (cells', Some e) \<Rightarrow> (cells', Some e))"

text \<open>\<^verbatim>\<open>GapTargeter.compute_mismatches\<close>. \<open>neighbor_mismatch\<close> is the body of the inner
  loop for one neighbour key: the list of values it appends to \<^verbatim>\<open>mismatches\<close>.
  \<open>mismatch_step\<close> is the body of the outer loop for one key of the dictionary.\<close>

definition neighbor_mismatch :: "grid \<Rightarrow> Cell \<Rightarrow> key \<Rightarrow> real list" where
  "neighbor_mismatch cells cell neighbor_key =
     (case map_of cells neighbor_key of
        None \<Rightarrow> []
      | Some neighbor \<Rightarrow>
          if n_success neighbor \<ge> 2 then
            (let delta = \<bar>mean_energy cell - mean_energy neighbor\<bar>;
                 combined_std = sqrt ((std_energy cell)\<^sup>2 + (std_energy neighbor)\<^sup>2)
             in if combined_std > 0 then [delta / combined_std] else [])
          else [])"

definition mismatch_step :: "key \<Rightarrow> grid \<Rightarrow> grid" where
  "mismatch_step key' cells =
     (case map_of cells key' of
        None \<Rightarrow> cells
      | Some cell \<Rightarrow>
          if n_success cell < 2 then cells
          else
            (let (i, j, k) = key';
                 neighbors = [(i - 1, j, k), (i + 1, j, k),
                              (i, j - 1, k), (i, j + 1, k),
                              (i, j, k - 1), (i, j, k + 1)];
                 mismatches = concat (map (neighbor_mismatch cells cell) neighbors)
             in if mismatches \<noteq> [] then
                  AList.update key' (cell\<lparr>max_mismatch := Max (set mismatches)\<rparr>) cells
                else cells))"

definition compute_mismatches :: "grid \<Rightarrow> grid" where
  "compute_mismatches cells = fold mismatch_step (map fst cells) cells"

text \<open>\<^verbatim>\<open>GapTargeter.identify_gaps\<close>: the sorted list of gap cells, each a reference
  (its key) together with the cell it refers to, and the dictionary after the call.
  \<^verbatim>\<open>gaps.sort(key=lambda c: (c.n_runs, -c.max_mismatch))\<close> is a stable sort on
  lexicographically ordered pairs.\<close>

definition identify_gaps :: "grid \<Rightarrow> int \<Rightarrow> real \<Rightarrow> (key \<times> Cell) list \<times> grid" where
  "identify_gaps cells sparse_threshold mismatch_threshold =
     (let cells' = compute_mismatches cells;
          gaps = filter (\<lambda>(key', cell). is_sparse cell sparse_threshold
                                        \<or> is_high_mismatch cell mismatch_threshold) cells'
      in (sort_key (\<lambda>(key', cell). (n_runs cell, - max_mismatch cell)) gaps, cells'))"

section \<open>Reference definitions for the coverage statistics\<close>

text \<open>The batch statistics that the incremental update of \<^verbatim>\<open>record_run\<close> is compared
  with: the arithmetic mean of a non-empty list of energies, and the population standard
  deviation (the square root of the mean squared deviation from the mean, the default of
  \<^verbatim>\<open>np.std\<close>).\<close>

definition batch_mean :: "real list \<Rightarrow> real" where
  "batch_mean es = sum_list es / real (length es)"

definition batch_variance :: "real list \<Rightarrow> real" where
  "batch_variance es = sum_list (map (\<lambda>e. (e - batch_mean es)\<^sup>2) es) / real (length es)"

definition batch_std :: "real list \<Rightarrow> real" where
  "batch_std es = sqrt (batch_variance es)"

text \<open>The energies of the successful runs of a sequence of calls that were recorded into
  the cell with a given key, in the order of the calls.\<close>

definition successful_energies :: "key \<Rightarrow> run list \<Rightarrow> real list" where
  "successful_energies key' runs =
     map (\<lambda>(scale', temp', density', success, energy'). energy')
         (filter (\<lambda>(scale', temp', density', success, energy').
                    success \<and> get_cell_key scale' temp' density' = Inr key') runs)"

text \<open>The counters of a cell are consistent when every run counted is counted as exactly
  one of a success and a failure.\<close>

definition counters_consistent :: "Cell \<Rightarrow> bool" where
  "counters_consistent cell = (n_runs cell = n_success cell + n_failures cell)"

definition grid_consistent :: "grid \<Rightarrow> bool" where
  "grid_consistent cells = (\<forall>(key', cell) \<in> set cells. counters_consistent cell)"

text \<open>A cell tracks a list of energies when it counts them as its successes and holds
  their batch mean and standard deviation, or the initial 0.0 of both when there are
  none.\<close>

definition cell_tracks :: "Cell \<Rightarrow> real list \<Rightarrow> bool" where
  "cell_tracks cell es =
     (n_success cell = int (length es)
      \<and> (if es = [] then mean_energy cell = 0 \<and> std_energy cell = 0
         else mean_energy cell = batch_mean es \<and> std_energy cell = batch_std es))"

text \<open>The keys of the grid that the constructor builds: one per triple of bin indices.\<close>

definition grid_keys :: "key set" where
  "grid_keys = {(int i, int j, int k) | i j k.
                  i < length scale_bins \<and> j < length temp_bins \<and> k < length density_bins}"

text \<open>Two entries of a grid that differ at most in the \<open>max_mismatch\<close> of the cell.\<close>

definition same_but_mismatch :: "key \<times> Cell \<Rightarrow> key \<times> Cell \<Rightarrow> bool" where
  "same_but_mismatch p q = (fst q = fst p \<and> (\<exists>m. snd q = (snd p)\<lparr>max_mismatch := m\<rparr>))"

text \<open>A grid tracks a sequence of calls when it has the keys of the constructor's grid and
  each of its cells tracks the successful energies recorded into it.\<close>

definition grid_tracks :: "grid \<Rightarrow> run list \<Rightarrow> bool" where
  "grid_tracks cells runs =
     (fst ` set cells = grid_keys
      \<and> (\<forall>key' cell. map_of cells key' = Some cell
             \<longrightarrow> cell_tracks cell (successful_energies key' runs)))"

section \<open>Health determination and domain inference\<close>

text \<open>
  C3. Health determination returns one of the four states, and each state is returned
  exactly on its band, the bands being tried in the order converged, bounded, exploded,
  invalid: \<open>converged\<close> iff converged and stable and max\_force < 0.01; \<open>bounded\<close> iff
  not that, and energy < 0 and max\_force < 0.1; \<open>exploded\<close> iff neither, and
  |energy| > 1e6 or max\_force > 10.0; \<open>invalid\<close> iff none of the three. So the four
  bands are mutually exclusive and exhaustive.
\<close>

theorem determine_health_bands:
  "determine_health r sd \<in> {''converged'', ''bounded'', ''exploded'', ''invalid''}
   \<and> (determine_health r sd = ''converged'' \<longleftrightarrow>
        converged r \<and> stable r \<and> max_force r < 0.01)
   \<and> (determine_health r sd = ''bounded'' \<longleftrightarrow>
        \<not> (converged r \<and> stable r \<and> max_force r < 0.01)
        \<and> energy r < 0 \<and> max_force r < 0.1)
   \<and> (determine_health r sd = ''exploded'' \<longleftrightarrow>
        \<not> (converged r \<and> stable r \<and> max_force r < 0.01)
        \<and> \<not> (energy r < 0 \<and> max_force r < 0.1)
        \<and> (\<bar>energy r\<bar> > 1000000 \<or> max_force r > 10))
   \<and> (determine_health r sd = ''invalid'' \<longleftrightarrow>
        \<not> (converged r \<and> stable r \<and> max_force r < 0.01)
        \<and> \<not> (energy r < 0 \<and> max_force r < 0.1)
        \<and> \<not> (\<bar>energy r\<bar> > 1000000 \<or> max_force r > 10))"
  unfolding determine_health_def by simp

text \<open>
  C4. Every run card is to carry the domain tag of the atom count \<open>N\<close> of its molecule:
  \<open>@molecule\<close> for \<open>N = 1\<close>, \<open>@cluster\<close> or \<open>@molecule\<close> for \<open>N \<le> 10\<close>, \<open>@gas\<close> for
  \<open>N \<le> 100\<close>, \<open>@bulk\<close> above. \<^verbatim>\<open>_infer_domain\<close> computes this tag for the count it is
  given, but \<^verbatim>\<open>_generate_run_card\<close> never reaches it: the score it computes first reads
  \<^verbatim>\<open>record.model\<close>, which no \<^verbatim>\<open>DiscoveryRecord\<close> has, so the call raises
  \<^verbatim>\<open>AttributeError\<close> for every record, simulation data and composition, and no card and
  no tag is produced. For glucose, \<open>{C: 6, H: 12, O: 6}\<close> with formula \<open>C6H12O6\<close> and
  24 atoms, whose tag is \<open>@gas\<close>, the call raises; and the count that the source goes on
  to pass to \<^verbatim>\<open>_infer_domain\<close> is not 24 but the 7 characters of the formula, for which
  \<^verbatim>\<open>_infer_domain\<close> answers \<open>@molecule\<close>.
\<close>

theorem generate_run_card_raises:
  "generate_run_card record' sim_data element_counts = Inl AttributeError
   \<and> generate_run_card (r\<lparr>formula := ''C6H12O6''\<rparr>) sd [(''C'', 6), (''H'', 12), (''O'', 6)]
       = Inl AttributeError
   \<and> build_formula [(''C'', 6), (''H'', 12), (''O'', 6)] = ''C6H12O6''
   \<and> sum_values [(''C'', 6), (''H'', 12), (''O'', 6)] = 24
   \<and> infer_domain ''C6H12O6'' 24 = ''@gas''
   \<and> infer_domain ''C6H12O6'' (int (length ''C6H12O6'')) = ''@molecule''"
proof -
  have "generate_run_card record' sim_data element_counts = Inl AttributeError"
    by (simp add: generate_run_card_def calculate_priority_score_def record_model_def)
  moreover have "generate_run_card (r\<lparr>formula := ''C6H12O6''\<rparr>) sd
                   [(''C'', 6), (''H'', 12), (''O'', 6)] = Inl AttributeError"
    by (simp add: generate_run_card_def calculate_priority_score_def record_model_def)
  moreover have "build_formula [(''C'', 6), (''H'', 12), (''O'', 6)] = ''C6H12O6''"
    by code_simp
  moreover have "sum_values [(''C'', 6), (''H'', 12), (''O'', 6)] = 24"
    by (simp add: sum_values_def)
  moreover have "infer_domain ''C6H12O6'' 24 = ''@gas''"
    by (simp add: infer_domain_def)
  moreover have "infer_domain ''C6H12O6'' (int (length ''C6H12O6'')) = ''@molecule''"
    by (simp add: infer_domain_def)
  ultimately show ?thesis by simp
qed

section \<open>The stability gate\<close>

text \<open>
  C8, as stated: for a health string outside the four states the gate is 0.05 whatever
  the flags are. It is not: with both flags set the gate is 1.0.
\<close>

theorem compute_wS_unknown_health_counterexample:
  "compute_wS default_scorer ''unknown'' True True \<noteq> 0.05"
  by (simp add: compute_wS_def)

text \<open>
  C8, amended. For a health string that is none of the four states the gate follows the
  two flags alone: 1.0 when bounded and converged are both true, 0.3 when bounded is true
  and converged is false, and 0.05 when bounded is false.
\<close>

theorem compute_wS_unknown_health:
  "health \<notin> {''converged'', ''bounded'', ''exploded'', ''invalid''} \<Longrightarrow>
   compute_wS self health converged' bounded =
     (if bounded \<and> converged' then 1.0 else if bounded then 0.3 else 0.05)"
  by (simp add: compute_wS_def)

theorem compute_wS_unknown_health_witness:
  "''unknown'' \<notin> {''converged'', ''bounded'', ''exploded'', ''invalid''}
   \<and> compute_wS default_scorer ''unknown'' False False = 0.05
   \<and> compute_wS default_scorer ''unknown'' True False = 0.05
   \<and> compute_wS default_scorer ''unknown'' False True = 0.3
   \<and> compute_wS default_scorer ''unknown'' True True = 1.0"
  using compute_wS_unknown_health [of "''unknown''" default_scorer False False]
        compute_wS_unknown_health [of "''unknown''" default_scorer True False]
        compute_wS_unknown_health [of "''unknown''" default_scorer False True]
        compute_wS_unknown_health [of "''unknown''" default_scorer True True]
  by simp

section \<open>Classification\<close>

lemma set_append_if: "set (append_if cs x) = set cs \<union> set_option x"
  by (cases x) (simp_all add: append_if_def)

lemma set_classify:
  "set (classify ec) =
     set_option (detect_organometallic (set (map fst ec)) ec)
     \<union> set_option (detect_perfluorinated ec)
     \<union> set_option (detect_semiconductor (set (map fst ec)) ec)
     \<union> set_option (detect_superalloy (set (map fst ec)) ec)
     \<union> set_option (detect_super_acid (set (map fst ec)) ec)
     \<union> set_option (detect_super_base (set (map fst ec)) ec)
     \<union> set_option (detect_explosive (set (map fst ec)) ec)"
  by (simp add: classify_def Let_def set_append_if Un_assoc)

lemma detect_bonus_nonneg:
  "detect_organometallic es ec = Some c \<Longrightarrow> 0 \<le> bonus c"
  "detect_perfluorinated ec = Some c \<Longrightarrow> 0 \<le> bonus c"
  "detect_semiconductor es ec = Some c \<Longrightarrow> 0 \<le> bonus c"
  "detect_superalloy es ec = Some c \<Longrightarrow> 0 \<le> bonus c"
  "detect_super_acid es ec = Some c \<Longrightarrow> 0 \<le> bonus c"
  "detect_super_base es ec = Some c \<Longrightarrow> 0 \<le> bonus c"
  "detect_explosive es ec = Some c \<Longrightarrow> 0 \<le> bonus c"
  by (auto simp: detect_organometallic_def detect_perfluorinated_def detect_semiconductor_def
        detect_superalloy_def detect_super_acid_def detect_super_base_def detect_explosive_def
        Let_def split: if_splits)

lemma classify_bonus_nonneg: "c \<in> set (classify ec) \<Longrightarrow> 0 \<le> bonus c"
  unfolding set_classify by (auto dest: detect_bonus_nonneg)

text \<open>
  C7. A composition whose keys contain carbon and an element \<open>m\<close> of the metal set is given
  a classification labelled \<open>organometallic\<close> with bonus 1.0 and confidence 1.0; and the
  composition of water, \<open>{H: 2, O: 1}\<close>, is given no classification at all.
\<close>

theorem classify_organometallic:
  assumes "''C'' \<in> fst ` set ec" and "m \<in> metals" and "m \<in> fst ` set ec"
  shows "(\<exists>c \<in> set (classify ec).
            label c = ''organometallic'' \<and> bonus c = 1.0 \<and> confidence c = 1.0)
         \<and> classify [(''H'', 2), (''O'', 1)] = []"
proof
  from assms have "fst ` set ec \<inter> metals \<noteq> {}" by blast
  with assms(1) obtain c where c: "detect_organometallic (set (map fst ec)) ec = Some c"
    "label c = ''organometallic''" "bonus c = 1.0" "confidence c = 1.0"
    by (simp add: detect_organometallic_def Let_def)
  then have "c \<in> set (classify ec)" by (simp add: set_classify)
  with c show "\<exists>c \<in> set (classify ec).
            label c = ''organometallic'' \<and> bonus c = 1.0 \<and> confidence c = 1.0" by blast
  show "classify [(''H'', 2), (''O'', 1)] = []" by code_simp
qed

theorem classify_organometallic_witness:
  "''C'' \<in> fst ` set [(''C'', 10), (''H'', 10), (''Fe'', 1::int)]
   \<and> ''Fe'' \<in> metals
   \<and> ''Fe'' \<in> fst ` set [(''C'', 10), (''H'', 10), (''Fe'', 1::int)]
   \<and> (\<exists>c \<in> set (classify [(''C'', 10), (''H'', 10), (''Fe'', 1)]).
            label c = ''organometallic'' \<and> bonus c = 1.0 \<and> confidence c = 1.0)
   \<and> classify [(''H'', 2), (''O'', 1)] = []"
proof -
  have h1: "''C'' \<in> fst ` set [(''C'', 10), (''H'', 10), (''Fe'', 1::int)]" by simp
  have h2: "''Fe'' \<in> metals" by (simp add: metals_def)
  have h3: "''Fe'' \<in> fst ` set [(''C'', 10), (''H'', 10), (''Fe'', 1::int)]" by simp
  from classify_organometallic [OF h1 h2 h3] h1 h2 h3 show ?thesis by blast
qed

section \<open>The priority score\<close>

lemma compute_wC_ge_1: "1 \<le> fst (compute_wC self ec)"
proof -
  have "0 \<le> sum_list (map bonus (classify ec))"
    by (rule sum_list_nonneg) (auto dest: classify_bonus_nonneg)
  then show ?thesis
    by (simp add: compute_wC_def classify_molecule_def Let_def)
qed

lemma compute_wN_default:
  "compute_wN default_scorer N =
     Inr (exp (- ((real_of_int N - 8)\<^sup>2) / 18) + 0.8 * exp (- ((real_of_int N - 56)\<^sup>2) / 288))"
  by (simp add: compute_wN_def default_scorer_def Let_def)

lemma compute_wN_default_pos:
  "compute_wN default_scorer N = Inr w \<Longrightarrow> 0 < w"
  by (auto simp: compute_wN_default intro: add_pos_pos)

lemma compute_wQ_pos: "0 < compute_wQ self q"
  by (simp add: compute_wQ_def)

lemma compute_wS_pos: "0 < compute_wS self h c b"
  by (simp add: compute_wS_def)

lemma sum_list_snd_nonneg: "valid_composition ec \<Longrightarrow> 0 \<le> sum_list (map snd (filter P ec))"
  by (rule sum_list_nonneg) (auto simp: valid_composition_def)

lemma compute_wM_default_ge_1:
  assumes "valid_composition ec" shows "1 \<le> compute_wM default_scorer ec"
proof -
  have a: "0 \<le> sum_list (map snd (filter (\<lambda>(elem, count'). elem \<in> metal_symbols) ec))"
    using assms by (rule sum_list_snd_nonneg)
  have "0 \<le> sum_list (map snd (filter (\<lambda>_. True) ec))"
    using assms by (rule sum_list_snd_nonneg)
  then have b: "0 \<le> sum_values ec" by (simp add: sum_values_def)
  show ?thesis using a b
    by (simp add: compute_wM_def default_scorer_def Let_def)
qed

lemma compute_wD_default_ge_1: "1 \<le> compute_wD default_scorer ec"
  by (simp add: compute_wD_def default_scorer_def Let_def)

lemma compute_wM_zero: "sum_values ec = 0 \<Longrightarrow> compute_wM self ec = 1"
  by (simp add: compute_wM_def)

lemma compute_wD_zero: "sum_values ec = 0 \<Longrightarrow> compute_wD self ec = 1"
  by (simp add: compute_wD_def)

lemma compute_cost_nonneg:
  "0 \<le> N \<Longrightarrow> \<exists>C. compute_cost self N lr = PyFloat C \<and> 0 \<le> C"
  by (simp add: compute_cost_def)

lemma score_float_cost:
  assumes "compute_wN self N = Inr w" and "compute_cost self N lr = PyFloat C"
    and "1 + lambda_cost self * C \<noteq> 0"
  shows "score self N ec q h c b lr =
     Inr \<lparr>wN = w,
          wQ = compute_wQ self q,
          wM = compute_wM self ec,
          wD = compute_wD self ec,
          wS = compute_wS self h c b,
          wC = fst (compute_wC self ec),
          cost = C,
          value' = w * compute_wQ self q * compute_wM self ec * compute_wD self ec
                   * fst (compute_wC self ec) * compute_wS self h c b,
          priority = min 100 (w * compute_wQ self q * compute_wM self ec * compute_wD self ec
                   * fst (compute_wC self ec) * compute_wS self h c b
                   / (1 + lambda_cost self * C) * 50),
          classifications = snd (compute_wC self ec)\<rparr>"
  using assms by (simp add: score_def Let_def split: prod.splits)

lemma lambda_cost_default: "lambda_cost default_scorer = 1 / 100"
  by (simp add: default_scorer_def)

text \<open>
  C2. For every atom count \<open>N \<ge> 1\<close> and every valid composition, whatever the charge,
  the health string, the two flags and the long-range flag are, the default scorer returns
  a breakdown (no exception) whose priority lies in the closed interval from 0 to 100,
  and whose six weights and cost are all non-negative.
\<close>

theorem score_priority_range:
  assumes "1 \<le> N" and "valid_composition ec"
  shows "\<exists>sb. score default_scorer N ec q h c b lr = Inr sb
           \<and> 0 \<le> priority sb \<and> priority sb \<le> 100
           \<and> 0 \<le> wN sb \<and> 0 \<le> wQ sb \<and> 0 \<le> wM sb \<and> 0 \<le> wD sb \<and> 0 \<le> wC sb
           \<and> 0 \<le> wS sb \<and> 0 \<le> cost sb"
proof -
  from assms(1) obtain C where C: "compute_cost default_scorer N lr = PyFloat C" "0 \<le> C"
    using compute_cost_nonneg [of N default_scorer lr] by auto
  obtain w where w: "compute_wN default_scorer N = Inr w" by (simp add: compute_wN_default)
  have wN: "0 \<le> w" using compute_wN_default_pos [OF w] by simp
  have wQ: "0 \<le> compute_wQ default_scorer q" using compute_wQ_pos [of default_scorer q] by simp
  have wM: "0 \<le> compute_wM default_scorer ec"
    using compute_wM_default_ge_1 [OF assms(2)] by simp
  have wD: "0 \<le> compute_wD default_scorer ec"
    using compute_wD_default_ge_1 [of ec] by simp
  have wC: "0 \<le> fst (compute_wC default_scorer ec)"
    using compute_wC_ge_1 [of default_scorer ec] by simp
  have wS: "0 \<le> compute_wS default_scorer h c b"
    using compute_wS_pos [of default_scorer h c b] by simp
  have V: "0 \<le> w * compute_wQ default_scorer q * compute_wM default_scorer ec
              * compute_wD default_scorer ec * fst (compute_wC default_scorer ec)
              * compute_wS default_scorer h c b"
    using wN wQ wM wD wC wS by simp
  have pos: "0 < 1 + lambda_cost default_scorer * C"
    using C(2) by (simp add: lambda_cost_default add_pos_nonneg)
  with V have S: "0 \<le> w * compute_wQ default_scorer q * compute_wM default_scorer ec
              * compute_wD default_scorer ec * fst (compute_wC default_scorer ec)
              * compute_wS default_scorer h c b / (1 + lambda_cost default_scorer * C) * 50"
    by simp
  from pos have ne: "1 + lambda_cost default_scorer * C \<noteq> 0" by simp
  show ?thesis
    using wN wQ wM wD wC wS C(2) S
    by (simp add: score_float_cost [OF w C(1) ne])
qed

theorem score_priority_range_witness:
  "(1::int) \<le> 3 \<and> valid_composition [(''H'', 2), (''O'', 1)]
   \<and> (\<exists>sb. score default_scorer 3 [(''H'', 2), (''O'', 1)] 0 ''converged'' True True False = Inr sb
           \<and> 0 \<le> priority sb \<and> priority sb \<le> 100
           \<and> 0 \<le> wN sb \<and> 0 \<le> wQ sb \<and> 0 \<le> wM sb \<and> 0 \<le> wD sb \<and> 0 \<le> wC sb
           \<and> 0 \<le> wS sb \<and> 0 \<le> cost sb)"
proof -
  have h1: "(1::int) \<le> 3" by simp
  have h2: "valid_composition [(''H'', 2), (''O'', 1)]" by (simp add: valid_composition_def)
  from score_priority_range [OF h1 h2, of 0 "''converged''" True True False] h1 h2
  show ?thesis by blast
qed

text \<open>
  C1, as stated: scoring a composition of no atoms is rejected with an error. It is not:
  for \<open>N = 0\<close> and the empty composition the scorer returns a breakdown.
\<close>

theorem score_zero_atoms_counterexample:
  "\<not> isl (score default_scorer 0 [] 0 ''converged'' True True False)"
  by (simp add: score_def compute_wN_def default_scorer_def compute_cost_def Let_def
        split: prod.splits)

text \<open>
  C1, amended. For \<open>N = 0\<close> and every composition whose counts sum to 0 the default
  scorer does not reject: its guards give \<open>wM = 1\<close> and \<open>wD = 1\<close>, the cost is 0, and it
  returns the numeric priority \<open>min(100, 50 \<cdot> wN \<cdot> wQ \<cdot> wC \<cdot> wS)\<close>, which lies between
  0 and 100. The scorer is the one of the default configuration, \<open>default_scorer\<close>.
\<close>

theorem score_zero_atoms:
  assumes "sum_values ec = 0"
  shows "\<exists>sb. score default_scorer 0 ec q h c b lr = Inr sb
           \<and> wM sb = 1 \<and> wD sb = 1 \<and> cost sb = 0
           \<and> priority sb = min 100 (wN sb * wQ sb * wC sb * wS sb * 50)
           \<and> 0 \<le> priority sb \<and> priority sb \<le> 100"
proof -
  have C: "compute_cost default_scorer 0 lr = PyFloat 0" by (simp add: compute_cost_def)
  obtain w where w: "compute_wN default_scorer 0 = Inr w" by (simp add: compute_wN_default)
  have wN: "0 < w" using compute_wN_default_pos [OF w] .
  have wQ: "0 < compute_wQ default_scorer q" by (rule compute_wQ_pos)
  have wC: "0 < fst (compute_wC default_scorer ec)"
    using compute_wC_ge_1 [of default_scorer ec] by simp
  have wS: "0 < compute_wS default_scorer h c b" by (rule compute_wS_pos)
  have V: "0 \<le> w * compute_wQ default_scorer q * fst (compute_wC default_scorer ec)
              * compute_wS default_scorer h c b"
    using wN wQ wC wS by simp
  have ne: "1 + lambda_cost default_scorer * 0 \<noteq> 0" by simp
  show ?thesis
    using V by (simp add: score_float_cost [OF w C ne] compute_wM_zero [OF assms]
        compute_wD_zero [OF assms])
qed

theorem score_zero_atoms_witness:
  "sum_values [] = 0
   \<and> (\<exists>sb. score default_scorer 0 [] 0 ''converged'' True True False = Inr sb
           \<and> wM sb = 1 \<and> wD sb = 1 \<and> cost sb = 0
           \<and> priority sb = min 100 (wN sb * wQ sb * wC sb * wS sb * 50)
           \<and> 0 \<le> priority sb \<and> priority sb \<le> 100)"
proof -
  have h: "sum_values [] = 0" by (simp add: sum_values_def)
  from score_zero_atoms [OF h, of 0 "''converged''" True True False] h show ?thesis by blast
qed

section \<open>The coverage grid\<close>

lemma argmin_from_bound:
  "best_i < i \<Longrightarrow> argmin_from best_i best_v i xs < i + length xs"
proof (induction xs arbitrary: best_i best_v i)
  case Nil
  then show ?case by simp
next
  case (Cons x xs)
  have a: "argmin_from i x (Suc i) xs < Suc i + length xs"
    by (rule Cons.IH) simp
  have b: "argmin_from best_i best_v (Suc i) xs < Suc i + length xs"
    by (rule Cons.IH) (use Cons.prems in simp)
  from a b show ?case by simp
qed

lemma argmin_nonempty:
  "xs \<noteq> [] \<Longrightarrow> \<exists>i. argmin xs = Inr i \<and> i < length xs"
  using argmin_from_bound [of 0 1]
  by (cases xs) (auto simp: argmin_def)

lemma length_bins [simp]:
  "length scale_bins = 6" "length temp_bins = 10" "length density_bins = 10"
  by (simp_all add: scale_bins_def temp_bins_def density_bins_def linspace_def)

lemma get_cell_key_total:
  "\<exists>key'. get_cell_key scale' temp' density' = Inr key' \<and> key' \<in> grid_keys"
proof -
  obtain i where i: "argmin (map (\<lambda>s. \<bar>real_of_int (s - scale')\<bar>) scale_bins) = Inr i"
    "i < length scale_bins"
    using argmin_nonempty [of "map (\<lambda>s. \<bar>real_of_int (s - scale')\<bar>) scale_bins"]
    by (auto simp: scale_bins_def)
  obtain j where j: "argmin (map (\<lambda>t. \<bar>t - temp'\<bar>) temp_bins) = Inr j" "j < length temp_bins"
    using argmin_nonempty [of "map (\<lambda>t. \<bar>t - temp'\<bar>) temp_bins"]
    by (auto simp: temp_bins_def linspace_def)
  obtain k where k: "argmin (map (\<lambda>d. \<bar>d - density'\<bar>) density_bins) = Inr k"
    "k < length density_bins"
    using argmin_nonempty [of "map (\<lambda>d. \<bar>d - density'\<bar>) density_bins"]
    by (auto simp: density_bins_def linspace_def)
  have "get_cell_key scale' temp' density' = Inr (int i, int j, int k)"
    unfolding get_cell_key_def i(1) j(1) k(1) by simp
  moreover have "(int i, int j, int k) \<in> grid_keys"
    unfolding grid_keys_def using i(2) j(2) k(2) by blast
  ultimately show ?thesis by blast
qed

lemma fold_invariant:
  "I s \<Longrightarrow> (\<And>x s. x \<in> set xs \<Longrightarrow> I s \<Longrightarrow> I (f x s)) \<Longrightarrow> I (fold f xs s)"
  by (induction xs arbitrary: s) auto

lemma fold_dom:
  assumes "\<And>x al. x \<in> set xs \<Longrightarrow> fst ` set (f x al) = fst ` set al \<union> K x"
  shows "fst ` set (fold f xs al) = fst ` set al \<union> (\<Union>x \<in> set xs. K x)"
  using assms by (induction xs arbitrary: al) auto

lemma initialize_grid_keys: "fst ` set initialize_grid = grid_keys"
proof -
  have inner: "fst ` set (fold (\<lambda>(k, density'). AList.update (i, j, int k) (new_cell s t density'))
                 (enumerate 0 density_bins) al)
       = fst ` set al \<union> (\<Union>x \<in> set (enumerate 0 density_bins). {(i, j, int (fst x))})"
    for i j s t al
    by (rule fold_dom) (auto simp: dom_update split: prod.splits)
  have middle: "fst ` set (fold (\<lambda>(j, temp').
         fold (\<lambda>(k, density'). AList.update (i, int j, int k) (new_cell s temp' density'))
              (enumerate 0 density_bins)) (enumerate 0 temp_bins) al)
       = fst ` set al \<union> (\<Union>y \<in> set (enumerate 0 temp_bins).
            \<Union>x \<in> set (enumerate 0 density_bins). {(i, int (fst y), int (fst x))})"
    for i s al
    by (rule fold_dom) (auto simp: inner split: prod.splits)
  have outer: "fst ` set initialize_grid
       = (\<Union>z \<in> set (enumerate 0 scale_bins). \<Union>y \<in> set (enumerate 0 temp_bins).
            \<Union>x \<in> set (enumerate 0 density_bins). {(int (fst z), int (fst y), int (fst x))})"
    unfolding initialize_grid_def
    by (subst fold_dom [where K = "\<lambda>z. \<Union>y \<in> set (enumerate 0 temp_bins).
            \<Union>x \<in> set (enumerate 0 density_bins). {(int (fst z), int (fst y), int (fst x))}"])
       (auto simp: middle split: prod.splits)
  have idx: "(\<exists>x \<in> set (enumerate 0 xs). i = fst x) \<longleftrightarrow> i < length xs" for i and xs :: "'a list"
  proof -
    have "fst ` set (enumerate 0 xs) = {0..<length xs}"
      using map_fst_enumerate [of 0 xs] by (metis add_0 set_map set_upt)
    then show ?thesis by (metis atLeastLessThan_iff image_iff zero_le)
  qed
  show ?thesis
    unfolding outer grid_keys_def
    by (auto simp: idx) (auto simp: in_set_enumerate_eq)
qed

lemma set_update_cases:
  "(k', c) \<in> set (AList.update k v al) \<Longrightarrow> (k' = k \<and> c = v) \<or> (k', c) \<in> set al"
  by (induction al) (auto split: if_splits)

lemma initialize_grid_fresh:
  assumes "(key', cell) \<in> set initialize_grid"
  shows "\<exists>s t d. cell = new_cell s t d"
proof -
  define I where "I = (\<lambda>al :: grid. \<forall>(k, c) \<in> set al. \<exists>s t d. c = new_cell s t d)"
  have step: "I (AList.update k (new_cell s t d) al)" if "I al" for al k s t d
    using that unfolding I_def by (auto dest!: set_update_cases)
  have inner: "I (fold (\<lambda>(k, density'). AList.update (i, j, int k) (new_cell s t density'))
                   xs al)" if "I al" for i j s t xs al
    using that by (rule fold_invariant) (auto simp: split_beta intro: step)
  have middle: "I (fold (\<lambda>(j, temp').
         fold (\<lambda>(k, density'). AList.update (i, int j, int k) (new_cell s temp' density')) xs)
           ys al)" if "I al" for i s xs ys al
    using that by (rule fold_invariant) (auto simp: split_beta intro: inner)
  have "I []" by (simp add: I_def)
  then have "I initialize_grid"
    unfolding initialize_grid_def
    by (rule fold_invariant) (auto simp: split_beta intro: middle)
  with assms show ?thesis unfolding I_def by blast
qed

lemma record_cell_failure:
  "record_cell cell False energy' =
     (cell\<lparr>n_runs := n_runs cell + 1, n_failures := n_failures cell + 1\<rparr>, None)"
  by (simp add: record_cell_def Let_def)

lemma record_cell_consistent:
  "counters_consistent cell \<Longrightarrow> counters_consistent (fst (record_cell cell success energy'))"
  by (simp add: record_cell_def counters_consistent_def Let_def)

lemma record_run_consistent:
  assumes "grid_consistent cells"
  shows "grid_consistent (fst (record_run cells scale' temp' density' success energy'))"
proof (cases "get_cell_key scale' temp' density'")
  case (Inl e)
  with assms show ?thesis by (simp add: record_run_def)
next
  case (Inr key')
  show ?thesis
  proof (cases "map_of cells key'")
    case None
    with Inr assms show ?thesis by (simp add: record_run_def)
  next
    case (Some cell)
    then have "(key', cell) \<in> set cells" by (rule map_of_SomeD)
    with assms have "counters_consistent cell" by (auto simp: grid_consistent_def)
    then have "counters_consistent (fst (record_cell cell success energy'))"
      by (rule record_cell_consistent)
    with assms Inr Some show ?thesis
      by (auto simp: record_run_def grid_consistent_def split: prod.splits
               dest!: set_update_cases)
  qed
qed

lemma initialize_grid_consistent: "grid_consistent initialize_grid"
  unfolding grid_consistent_def
  by (auto dest!: initialize_grid_fresh simp: counters_consistent_def new_cell_def)

lemma record_runs_consistent:
  "grid_consistent cells \<Longrightarrow> grid_consistent (fst (record_runs cells runs))"
proof (induction runs arbitrary: cells)
  case Nil
  then show ?case by simp
next
  case (Cons r rs)
  obtain s t d su e where r: "r = (s, t, d, su, e)" by (cases r) auto
  obtain cells' err where rr: "record_run cells s t d su e = (cells', err)"
    by (cases "record_run cells s t d su e") auto
  have c: "grid_consistent cells'"
    using record_run_consistent [OF Cons.prems, of s t d su e] by (simp add: rr)
  show ?case
  proof (cases err)
    case None
    with Cons.IH [OF c] show ?thesis by (simp add: r rr)
  next
    case (Some a)
    with c show ?thesis by (simp add: r rr)
  qed
qed

text \<open>
  C9. A failed run (\<open>success = False\<close>) that lands in a cell of the grid returns normally;
  it adds one to the cell's \<open>n_runs\<close> and \<open>n_failures\<close> and changes nothing else: the
  cell's \<open>n_success\<close>, \<open>mean_energy\<close> and \<open>std_energy\<close> are exactly what they were, and
  every other cell is untouched.
\<close>

theorem record_run_failure_frame:
  assumes "get_cell_key scale' temp' density' = Inr key'" and "map_of cells key' = Some cell"
  shows "record_run cells scale' temp' density' False energy' =
           (AList.update key' (cell\<lparr>n_runs := n_runs cell + 1,
                                     n_failures := n_failures cell + 1\<rparr>) cells, None)
         \<and> (\<exists>cell'. map_of (fst (record_run cells scale' temp' density' False energy')) key'
                       = Some cell'
              \<and> n_runs cell' = n_runs cell + 1 \<and> n_failures cell' = n_failures cell + 1
              \<and> n_success cell' = n_success cell
              \<and> mean_energy cell' = mean_energy cell \<and> std_energy cell' = std_energy cell)"
  using assms by (simp add: record_run_def record_cell_failure update_conv')

lemma key_example: "get_cell_key 2 50 (1/1000) = Inr (0, 0, 0)"
  by (simp add: get_cell_key_def argmin_def scale_bins_def temp_bins_def density_bins_def
        linspace_def upt_conv_Cons)

theorem record_run_failure_frame_witness:
  "get_cell_key 2 50 (1/1000) = Inr (0, 0, 0)
   \<and> map_of [((0::int, 0::int, 0::int), new_cell 2 50 (1/1000))] (0, 0, 0)
        = Some (new_cell 2 50 (1/1000))
   \<and> record_run [((0, 0, 0), new_cell 2 50 (1/1000))] 2 50 (1/1000) False 7 =
       ([((0, 0, 0), (new_cell 2 50 (1/1000))\<lparr>n_runs := 1, n_failures := 1\<rparr>)], None)
   \<and> mean_energy ((new_cell 2 50 (1/1000))\<lparr>n_runs := 1, n_failures := 1\<rparr>)
        = mean_energy (new_cell 2 50 (1/1000))
   \<and> std_energy ((new_cell 2 50 (1/1000))\<lparr>n_runs := 1, n_failures := 1\<rparr>)
        = std_energy (new_cell 2 50 (1/1000))"
proof -
  have h: "map_of [((0, 0, 0), new_cell 2 50 (1/1000))] (0::int, 0::int, 0::int)
             = Some (new_cell 2 50 (1/1000))" by simp
  from record_run_failure_frame [OF key_example h, of 7] key_example h
  show ?thesis by (simp add: new_cell_def)
qed

section \<open>Gap identification\<close>

lemma same_but_mismatch_self: "same_but_mismatch p p"
  unfolding same_but_mismatch_def by (auto intro: exI [of _ "max_mismatch (snd p)"])

lemma same_but_mismatch_refl: "list_all2 same_but_mismatch al al"
  by (rule list_all2_refl) (rule same_but_mismatch_self)

lemma same_but_mismatch_trans:
  assumes "list_all2 same_but_mismatch al al'" and "list_all2 same_but_mismatch al' al''"
  shows "list_all2 same_but_mismatch al al''"
proof -
  have "same_but_mismatch a c" if "same_but_mismatch a b" "same_but_mismatch b c" for a b c
    using that by (auto simp: same_but_mismatch_def)
  then show ?thesis using assms by (rule list_all2_trans)
qed

lemma same_but_mismatch_update:
  "map_of al k = Some c \<Longrightarrow>
   list_all2 same_but_mismatch al (AList.update k (c\<lparr>max_mismatch := m\<rparr>) al)"
proof (induction al)
  case Nil
  then show ?case by simp
next
  case (Cons p al)
  show ?case
  proof (cases "fst p = k")
    case True
    with Cons.prems have "snd p = c" by (cases p) auto
    with True have "same_but_mismatch p (k, c\<lparr>max_mismatch := m\<rparr>)"
      by (auto simp: same_but_mismatch_def)
    with True show ?thesis
      by (cases p) (simp add: same_but_mismatch_refl)
  next
    case False
    with Cons.prems have "map_of al k = Some c" by (cases p) auto
    from Cons.IH [OF this] False show ?thesis
      by (cases p) (simp add: same_but_mismatch_self)
  qed
qed

lemma mismatch_step_same: "list_all2 same_but_mismatch cells (mismatch_step k cells)"
  by (auto simp: mismatch_step_def Let_def same_but_mismatch_refl same_but_mismatch_update
           split: option.splits prod.splits)

lemma fold_mismatch_step_same:
  "list_all2 same_but_mismatch cells (fold mismatch_step ks cells)"
proof (induction ks arbitrary: cells)
  case Nil
  then show ?case by (simp add: same_but_mismatch_refl)
next
  case (Cons k ks)
  show ?case
    using mismatch_step_same [of cells k] Cons.IH [of "mismatch_step k cells"]
    by (auto intro: same_but_mismatch_trans)
qed

lemma compute_mismatches_same:
  "list_all2 same_but_mismatch cells (compute_mismatches cells)"
  unfolding compute_mismatches_def by (rule fold_mismatch_step_same)

text \<open>
  C6. Let \<open>identify_gaps\<close> return the gap list \<open>gaps\<close> and leave the grid \<open>cells'\<close>
  (the mismatches having been recomputed by the call). A cell of the grid whose \<open>n_runs\<close>
  is strictly below the sparse threshold is in the gap list; a cell whose \<open>n_runs\<close> is at
  or above the sparse threshold and whose \<open>max_mismatch\<close> is below the mismatch threshold
  is not. The call keeps the keys of the grid and changes no field of a cell other than
  \<open>max_mismatch\<close>, so \<open>n_runs\<close> is the count the cell had before the call. The
  thresholds are arbitrary; the defaults are 10 and 0.5.
\<close>

theorem identify_gaps_membership:
  assumes "identify_gaps cells sparse_threshold mismatch_threshold = (gaps, cells')"
    and "(key', cell) \<in> set cells'"
  shows "(n_runs cell < sparse_threshold \<longrightarrow> (key', cell) \<in> set gaps)
       \<and> (sparse_threshold \<le> n_runs cell \<and> max_mismatch cell < mismatch_threshold
            \<longrightarrow> (key', cell) \<notin> set gaps)
       \<and> map fst cells' = map fst cells
       \<and> (\<exists>cell0. (key', cell0) \<in> set cells
             \<and> cell = cell0\<lparr>max_mismatch := max_mismatch cell\<rparr>)"
proof -
  from assms(1) have c: "cells' = compute_mismatches cells"
    and g: "set gaps = {(k, c) \<in> set cells'.
               is_sparse c sparse_threshold \<or> is_high_mismatch c mismatch_threshold}"
    by (auto simp: identify_gaps_def Let_def)
  have rel: "list_all2 same_but_mismatch cells cells'"
    unfolding c by (rule compute_mismatches_same)
  have keys: "map fst cells' = map fst cells"
    using rel by (induction rule: list_all2_induct) (auto simp: same_but_mismatch_def)
  from assms(2) obtain i where i: "i < length cells'" "cells' ! i = (key', cell)"
    by (auto simp: in_set_conv_nth)
  have len: "length cells = length cells'" using rel by (rule list_all2_lengthD)
  define p where "p = cells ! i"
  have p: "p \<in> set cells" "same_but_mismatch p (key', cell)"
    using i len list_all2_nthD2 [OF rel i(1)] by (simp_all add: p_def)
  then obtain m where "fst p = key'" "cell = (snd p)\<lparr>max_mismatch := m\<rparr>"
    by (auto simp: same_but_mismatch_def)
  then have old: "(key', snd p) \<in> set cells" "cell = (snd p)\<lparr>max_mismatch := max_mismatch cell\<rparr>"
    using p(1) by (cases p, auto)+
  show ?thesis
    using assms(2) keys old
    by (auto simp: g is_sparse_def is_high_mismatch_def)
qed

theorem identify_gaps_membership_witness:
  "identify_gaps [((0::int, 0::int, 0::int), new_cell 2 50 (1/1000)),
                  ((1::int, 0::int, 0::int), (new_cell 5 50 (1/1000))\<lparr>n_runs := 12, n_failures := 12\<rparr>)] 10 0.5
     = ([((0::int, 0::int, 0::int), new_cell 2 50 (1/1000))],
        [((0::int, 0::int, 0::int), new_cell 2 50 (1/1000)),
         ((1::int, 0::int, 0::int), (new_cell 5 50 (1/1000))\<lparr>n_runs := 12, n_failures := 12\<rparr>)])
   \<and> n_runs (new_cell 2 50 (1/1000)) < 10
   \<and> ((0::int, 0::int, 0::int), new_cell 2 50 (1/1000)) \<in> set [((0::int, 0::int, 0::int), new_cell 2 50 (1/1000))]
   \<and> 10 \<le> n_runs ((new_cell 5 50 (1/1000))\<lparr>n_runs := 12, n_failures := 12\<rparr>)
   \<and> max_mismatch ((new_cell 5 50 (1/1000))\<lparr>n_runs := 12, n_failures := 12\<rparr>) < 0.5
   \<and> ((1::int, 0::int, 0::int), (new_cell 5 50 (1/1000))\<lparr>n_runs := 12, n_failures := 12\<rparr>)
        \<notin> set [((0::int, 0::int, 0::int), new_cell 2 50 (1/1000))]"
proof -
  let ?c0 = "new_cell 2 50 (1/1000)"
  let ?c1 = "(new_cell 5 50 (1/1000))\<lparr>n_runs := 12, n_failures := 12\<rparr>"
  let ?cells = "[((0, 0, 0), ?c0), ((1, 0, 0), ?c1)] :: grid"
  have h: "identify_gaps ?cells 10 0.5 = ([((0, 0, 0), ?c0)], ?cells)"
    by (simp add: identify_gaps_def compute_mismatches_def mismatch_step_def new_cell_def
          is_sparse_def is_high_mismatch_def)
  have m0: "((0, 0, 0), ?c0) \<in> set ?cells" by simp
  have m1: "((1, 0, 0), ?c1) \<in> set ?cells" by simp
  have a: "n_runs ?c0 < 10" by (simp add: new_cell_def)
  have b: "10 \<le> n_runs ?c1 \<and> max_mismatch ?c1 < 0.5" by (simp add: new_cell_def)
  note r0 = identify_gaps_membership [OF h m0, THEN conjunct1, THEN mp, OF a]
  note r1 = identify_gaps_membership [OF h m1, THEN conjunct2, THEN conjunct1, THEN mp, OF b]
  from b have b1: "10 \<le> n_runs ?c1" and b2: "max_mismatch ?c1 < 0.5" by simp_all
  from h a r0 b1 b2 r1 show ?thesis by (intro conjI)
qed

section \<open>Incremental statistics\<close>

lemma sum_list_sq_dev:
  "sum_list (map (\<lambda>e. (e - c)\<^sup>2) es)
     = sum_list (map (\<lambda>e. e\<^sup>2) es) - 2 * c * sum_list es + real (length es) * c\<^sup>2"
  by (induction es) (simp_all add: power2_eq_square algebra_simps)

lemma batch_mean_snoc:
  "batch_mean (es @ [x]) = batch_mean es + (x - batch_mean es) / (real (length es) + 1)"
proof (cases "es = []")
  case True
  then show ?thesis by (simp add: batch_mean_def)
next
  case False
  define k where "k = real (length es)"
  define S where "S = sum_list es"
  have kpos: "k > 0" using False by (simp add: k_def)
  have k1: "k + 1 \<noteq> 0" "k \<noteq> 0" using kpos by simp_all
  have "(S + x) / (k + 1) = S / k + (x - S / k) / (k + 1)"
    using k1 by (simp add: divide_simps) (simp add: algebra_simps)
  then show ?thesis
    by (simp add: batch_mean_def S_def k_def add.commute)
qed

lemma batch_variance_snoc:
  "batch_variance (es @ [x]) =
     (batch_variance es * real (length es)
        + (x - batch_mean es) * (x - batch_mean (es @ [x]))) / (real (length es) + 1)"
proof (cases "es = []")
  case True
  then show ?thesis by (simp add: batch_variance_def batch_mean_def)
next
  case False
  define k where "k = real (length es)"
  define S where "S = sum_list es"
  define Q where "Q = sum_list (map (\<lambda>e. e\<^sup>2) es)"
  have kpos: "k > 0" using False by (simp add: k_def)
  have k1: "k + 1 \<noteq> 0" "k \<noteq> 0" using kpos by simp_all
  have m: "batch_mean es = S / k" by (simp add: batch_mean_def S_def k_def)
  have m': "batch_mean (es @ [x]) = (S + x) / (k + 1)"
    by (simp add: batch_mean_def S_def k_def add.commute)
  have dev: "sum_list (map (\<lambda>e. (e - c)\<^sup>2) es) = Q - 2 * c * S + k * c\<^sup>2" for c
    unfolding Q_def S_def k_def by (rule sum_list_sq_dev)
  have dev': "sum_list (map (\<lambda>e. (e - c)\<^sup>2) (es @ [x])) = Q - 2 * c * S + k * c\<^sup>2 + (x - c)\<^sup>2" for c
    by (simp add: dev)
  have v: "batch_variance es * k = Q - 2 * (S / k) * S + k * (S / k)\<^sup>2"
    using kpos unfolding batch_variance_def m dev k_def [symmetric] by simp
  have v': "batch_variance (es @ [x]) =
      (Q - 2 * ((S + x) / (k + 1)) * S + k * ((S + x) / (k + 1))\<^sup>2
         + (x - (S + x) / (k + 1))\<^sup>2) / (k + 1)"
    unfolding batch_variance_def m' dev' by (simp add: k_def)
  have "Q - 2 * ((S + x) / (k + 1)) * S + k * ((S + x) / (k + 1))\<^sup>2
         + (x - (S + x) / (k + 1))\<^sup>2
        = (Q - 2 * (S / k) * S + k * (S / k)\<^sup>2) + (x - S / k) * (x - (S + x) / (k + 1))"
    using k1 by (simp add: divide_simps power2_eq_square) (simp add: algebra_simps)
  then show ?thesis
    unfolding v' m m' k_def [symmetric] v by simp
qed

lemma batch_variance_nonneg: "0 \<le> batch_variance es"
  unfolding batch_variance_def
  by (intro divide_nonneg_nonneg sum_list_nonneg) auto

lemma record_cell_success_tracks:
  assumes "cell_tracks cell es"
  shows "\<exists>cell'. record_cell cell True x = (cell', None) \<and> cell_tracks cell' (es @ [x])
           \<and> n_runs cell' = n_runs cell + 1 \<and> n_failures cell' = n_failures cell"
proof -
  define n where "n = n_success cell + 1"
  have n: "n = int (length es) + 1" using assms by (simp add: n_def cell_tracks_def)
  have rn: "real_of_int n = real (length es) + 1" "real_of_int (n - 1) = real (length es)"
    by (simp_all add: n)
  have n0: "n \<noteq> 0" by (simp add: n)
  have mean: "mean_energy cell = batch_mean es"
    using assms by (auto simp: cell_tracks_def batch_mean_def split: if_splits)
  have std: "(std_energy cell)\<^sup>2 = batch_variance es"
    using assms batch_variance_nonneg [of es]
    by (auto simp: cell_tracks_def batch_std_def batch_variance_def split: if_splits)
  define new_mean where "new_mean = mean_energy cell + (x - mean_energy cell) / real_of_int n"
  have new_mean: "new_mean = batch_mean (es @ [x])"
    by (simp add: new_mean_def mean rn batch_mean_snoc)
  define radicand where "radicand = ((std_energy cell)\<^sup>2 * real_of_int (n - 1)
                 + (x - mean_energy cell) * (x - new_mean)) / real_of_int n"
  have radicand: "radicand = batch_variance (es @ [x])"
    unfolding radicand_def std mean new_mean rn by (simp add: batch_variance_snoc)
  then have nonneg: "\<not> radicand < 0" using batch_variance_nonneg [of "es @ [x]"] by simp
  have rad': "((std_energy cell)\<^sup>2 * (real_of_int n - 1)
                 + (x - mean_energy cell) * (x - new_mean)) / real_of_int n = radicand"
    by (simp add: radicand_def)
  have "record_cell cell True x =
          (cell\<lparr>n_runs := n_runs cell + 1, n_success := n, mean_energy := new_mean,
                std_energy := sqrt radicand\<rparr>, None)"
    using n0 nonneg
    by (simp add: record_cell_def Let_def n_def [symmetric] new_mean_def [symmetric] rad')
  moreover have "cell_tracks (cell\<lparr>n_runs := n_runs cell + 1, n_success := n,
                    mean_energy := new_mean, std_energy := sqrt radicand\<rparr>) (es @ [x])"
    by (simp add: cell_tracks_def n new_mean radicand batch_std_def)
  ultimately show ?thesis by simp
qed

lemma record_cell_failure_tracks:
  "cell_tracks cell es \<Longrightarrow> cell_tracks (fst (record_cell cell False x)) es"
  by (simp add: record_cell_failure cell_tracks_def)

lemma grid_tracksD:
  "grid_tracks cells runs \<Longrightarrow> map_of cells k = Some c
   \<Longrightarrow> cell_tracks c (successful_energies k runs)"
  unfolding grid_tracks_def by blast

lemma grid_tracks_lookup:
  assumes "grid_tracks cells runs" and "k \<in> grid_keys"
  shows "\<exists>c. map_of cells k = Some c"
proof -
  from assms have "k \<in> fst ` set cells" unfolding grid_tracks_def by blast
  then show ?thesis by (metis map_of_eq_None_iff not_Some_eq)
qed

lemma successful_energies_snoc:
  "successful_energies k (runs @ [(s, t, d, su, e)]) =
     (if su \<and> get_cell_key s t d = Inr k then successful_energies k runs @ [e]
      else successful_energies k runs)"
  by (simp add: successful_energies_def)

lemma initialize_grid_tracks: "grid_tracks initialize_grid []"
  unfolding grid_tracks_def
proof (intro conjI allI impI)
  show "fst ` set initialize_grid = grid_keys" by (rule initialize_grid_keys)
next
  fix key' cell assume "map_of initialize_grid key' = Some cell"
  then have "(key', cell) \<in> set initialize_grid" by (rule map_of_SomeD)
  then obtain s t d where "cell = new_cell s t d" using initialize_grid_fresh by blast
  then show "cell_tracks cell (successful_energies key' [])"
    by (simp add: cell_tracks_def successful_energies_def new_cell_def)
qed

lemma record_run_tracks:
  assumes "grid_tracks cells runs"
  shows "\<exists>cells'. record_run cells s t d su e = (cells', None)
           \<and> grid_tracks cells' (runs @ [(s, t, d, su, e)])"
proof -
  obtain k where k: "get_cell_key s t d = Inr k" "k \<in> grid_keys"
    using get_cell_key_total by blast
  obtain cell where cell: "map_of cells k = Some cell"
    using grid_tracks_lookup [OF assms k(2)] by blast
  have tr: "cell_tracks cell (successful_energies k runs)"
    using assms cell by (rule grid_tracksD)
  obtain cell' where cell': "record_cell cell su e = (cell', None)"
    "cell_tracks cell' (successful_energies k (runs @ [(s, t, d, su, e)]))"
  proof (cases su)
    case True
    with record_cell_success_tracks [OF tr, of e] k(1) that show ?thesis
      by (auto simp: successful_energies_snoc)
  next
    case False
    with record_cell_failure_tracks [OF tr, of e] that show ?thesis
      by (auto simp: successful_energies_snoc record_cell_failure)
  qed
  have rr: "record_run cells s t d su e = (AList.update k cell' cells, None)"
    by (simp add: record_run_def k(1) cell cell'(1))
  have keys: "fst ` set (AList.update k cell' cells) = grid_keys"
    using assms k(2) unfolding grid_tracks_def by (auto simp: dom_update)
  have "cell_tracks c (successful_energies k' (runs @ [(s, t, d, su, e)]))"
    if "map_of (AList.update k cell' cells) k' = Some c" for k' c
  proof (cases "k' = k")
    case True
    with that cell'(2) show ?thesis by (simp add: update_conv')
  next
    case False
    with that have "map_of cells k' = Some c" by (simp add: update_conv')
    with assms have "cell_tracks c (successful_energies k' runs)" by (rule grid_tracksD)
    with False k(1) show ?thesis by (auto simp: successful_energies_snoc)
  qed
  with keys rr show ?thesis unfolding grid_tracks_def by blast
qed

lemma record_runs_tracks:
  "grid_tracks cells done \<Longrightarrow>
   \<exists>cells'. record_runs cells runs = (cells', None) \<and> grid_tracks cells' (done @ runs)"
proof (induction runs arbitrary: cells "done")
  case Nil
  then show ?case by simp
next
  case (Cons r rs)
  obtain s t d su e where r: "r = (s, t, d, su, e)" by (cases r) auto
  from record_run_tracks [OF Cons.prems, of s t d su e]
  obtain cells1 where 1: "record_run cells s t d su e = (cells1, None)"
    "grid_tracks cells1 (done @ [(s, t, d, su, e)])" by blast
  from Cons.IH [OF 1(2), of ] obtain cells' where
    "record_runs cells1 rs = (cells', None)" "grid_tracks cells' ((done @ [(s, t, d, su, e)]) @ rs)"
    by blast
  with 1(1) show ?case by (simp add: r)
qed

lemma record_runs_fresh:
  "\<exists>cells. record_runs initialize_grid runs = (cells, None) \<and> grid_tracks cells runs"
  using record_runs_tracks [OF initialize_grid_tracks, of runs] by simp

text \<open>
  C5. After any sequence of calls of \<open>record_run\<close> on a freshly initialised grid, no
  call having raised, every cell of the grid counts as \<open>n_success\<close> the successful runs
  recorded into it; if there is at least one, its \<open>mean_energy\<close> is the batch mean and its
  \<open>std_energy\<close> the batch (population) standard deviation of exactly their energies, in
  exact arithmetic; if there is none, both are still 0.
\<close>

theorem record_runs_statistics:
  assumes "key' \<in> grid_keys"
  shows "\<exists>cells cell. record_runs initialize_grid runs = (cells, None)
           \<and> map_of cells key' = Some cell
           \<and> n_success cell = int (length (successful_energies key' runs))
           \<and> (successful_energies key' runs \<noteq> [] \<longrightarrow>
                mean_energy cell = batch_mean (successful_energies key' runs)
                \<and> std_energy cell = batch_std (successful_energies key' runs))
           \<and> (successful_energies key' runs = [] \<longrightarrow>
                mean_energy cell = 0 \<and> std_energy cell = 0)"
proof -
  obtain cells where c: "record_runs initialize_grid runs = (cells, None)"
    "grid_tracks cells runs" using record_runs_fresh by blast
  obtain cell where cell: "map_of cells key' = Some cell"
    using grid_tracks_lookup [OF c(2) assms] by blast
  with c(2) have "cell_tracks cell (successful_energies key' runs)"
    by (rule grid_tracksD)
  with c(1) cell show ?thesis by (auto simp: cell_tracks_def)
qed

theorem record_runs_statistics_witness:
  "(0, 0, 0) \<in> grid_keys
   \<and> successful_energies (0, 0, 0)
        [(2, 50, 1/1000, True, 1), (2, 50, 1/1000, False, 0), (2, 50, 1/1000, True, 3)] = [1, 3]
   \<and> batch_mean [1, 3] = 2 \<and> batch_std [1, 3] = 1
   \<and> (\<exists>cells cell. record_runs initialize_grid
          [(2, 50, 1/1000, True, 1), (2, 50, 1/1000, False, 0), (2, 50, 1/1000, True, 3)]
            = (cells, None)
        \<and> map_of cells (0, 0, 0) = Some cell
        \<and> n_success cell = 2 \<and> mean_energy cell = 2 \<and> std_energy cell = 1)"
proof -
  have k: "(0, 0, 0) \<in> grid_keys"
    unfolding grid_keys_def using length_bins by (auto intro!: exI [of _ 0])
  have e: "successful_energies (0, 0, 0)
        [(2, 50, 1/1000, True, 1), (2, 50, 1/1000, False, 0), (2, 50, 1/1000, True, 3)] = [1, 3]"
    by (simp add: successful_energies_def key_example)
  have m: "batch_mean [1, 3] = 2" by (simp add: batch_mean_def)
  have s: "batch_std [1, 3] = 1" by (simp add: batch_std_def batch_variance_def m)
  from record_runs_statistics [OF k,
      of "[(2, 50, 1/1000, True, 1), (2, 50, 1/1000, False, 0), (2, 50, 1/1000, True, 3)]"]
  show ?thesis unfolding e using k m s by auto
qed

section \<open>The counter invariant\<close>

text \<open>
  C10. In a freshly initialised grid all three counters of every cell are zero, so
  \<open>n_runs = n_success + n_failures\<close> holds in every cell; a call of \<open>record_run\<close> on a
  grid where the equality holds in every cell leaves a grid where it does, whatever the
  success flag is (and also if the call raises); hence it holds after any sequence of
  calls on a fresh grid, none of which raises.
\<close>

theorem record_run_counters_invariant:
  assumes "grid_consistent cells"
  shows "(\<forall>(key', cell) \<in> set initialize_grid.
            n_runs cell = 0 \<and> n_success cell = 0 \<and> n_failures cell = 0)
       \<and> grid_consistent initialize_grid
       \<and> grid_consistent (fst (record_run cells scale' temp' density' success energy'))
       \<and> grid_consistent (fst (record_runs initialize_grid runs))
       \<and> snd (record_runs initialize_grid runs) = None"
proof -
  have "\<forall>(key', cell) \<in> set initialize_grid.
            n_runs cell = 0 \<and> n_success cell = 0 \<and> n_failures cell = 0"
    by (auto dest!: initialize_grid_fresh simp: new_cell_def)
  moreover note initialize_grid_consistent
  moreover have "grid_consistent (fst (record_run cells scale' temp' density' success energy'))"
    using assms by (rule record_run_consistent)
  moreover have "grid_consistent (fst (record_runs initialize_grid runs))"
    using initialize_grid_consistent by (rule record_runs_consistent)
  moreover have "snd (record_runs initialize_grid runs) = None"
    using record_runs_fresh [of runs] by auto
  ultimately show ?thesis by blast
qed

theorem record_run_counters_invariant_witness:
  "grid_consistent [((0, 0, 0), new_cell 2 50 (1/1000))]
   \<and> record_run [((0, 0, 0), new_cell 2 50 (1/1000))] 2 50 (1/1000) True 7
       = ([((0, 0, 0), (new_cell 2 50 (1/1000))\<lparr>n_runs := 1, n_success := 1, mean_energy := 7\<rparr>)],
          None)
   \<and> grid_consistent (fst (record_run [((0, 0, 0), new_cell 2 50 (1/1000))] 2 50 (1/1000) True 7))
   \<and> grid_consistent (fst (record_runs initialize_grid [(2, 50, 1/1000, True, 7)]))
   \<and> snd (record_runs initialize_grid [(2, 50, 1/1000, True, 7)]) = None"
proof -
  have h: "grid_consistent [((0, 0, 0), new_cell 2 50 (1/1000))]"
    by (simp add: grid_consistent_def counters_consistent_def new_cell_def)
  have r: "record_run [((0, 0, 0), new_cell 2 50 (1/1000))] 2 50 (1/1000) True 7
       = ([((0, 0, 0), (new_cell 2 50 (1/1000))\<lparr>n_runs := 1, n_success := 1, mean_energy := 7\<rparr>)],
          None)"
    by (simp add: record_run_def key_example record_cell_def new_cell_def)
  from record_run_counters_invariant [OF h, of 2 50 "1/1000" True 7 "[(2, 50, 1/1000, True, 7)]"]
    h r
  show ?thesis by simp
qed

end
